theory Spec2Isabelle
  imports Complex_Main "HOL-Library.Sublist" "HOL-Library.DAList"
begin

section \<open>Data model of app.py\<close>

text \<open>
  Python values are dynamically typed. A global of the module, and a component of the
  unpickled object, is modelled as one of three kinds of value: \<open>None\<close>, a pandas
  DataFrame, or a two-dimensional numpy array of floats. These are the kinds the module
  itself uses (it initialises \<open>scores\<close> to \<open>None\<close>) and the comments of
  \<open>load_model_components\<close> expect. A title is a \<open>str\<close>. A float is modelled by the real
  number it stands for (no NaN): the recommender only compares scores.
\<close>

datatype exn = KeyError | IndexError | AttributeError | TypeError

text \<open>A scalar held in a DataFrame cell or label: a \<open>str\<close> or a number.\<close>

datatype cell = CStr string | CNum real

text \<open>
  A DataFrame: its column labels, and its rows in order, each with its row label
  (\<open>df.index\<close>) and one cell per column. Column labels are strings. Row labels are unique,
  as the index of a pivot table and a \<open>RangeIndex\<close> are: the rows are an association list
  with distinct keys.
\<close>

record frame =
  colnames :: "string list"
  rows :: "(cell, cell list) alist"

type_synonym matrix = "real list list"

datatype pyval = PNone | PFrame frame | PArray matrix

text \<open>The module's globals \<open>popular_df\<close>, \<open>pt\<close>, \<open>scores\<close>, \<open>all_books\<close>.\<close>

record store =
  popular_df :: pyval
  pt :: pyval
  scores :: pyval
  all_books :: "cell list"

text \<open>The rows of a DataFrame as a list, and the DataFrame of given columns and rows.\<close>

definition row_list :: "frame \<Rightarrow> (cell \<times> cell list) list" where
  "row_list f = DAList.impl_of (rows f)"

definition DataFrame :: "string list \<Rightarrow> (cell \<times> cell list) list \<Rightarrow> frame" where
  "DataFrame cols rs = \<lparr>colnames = cols, rows = Alist rs\<rparr>"

text \<open>\<open>pd.DataFrame()\<close>\<close>

definition DataFrame_empty :: frame where
  "DataFrame_empty = DataFrame [] []"

text \<open>The globals as the module initialises them (lines 11 to 14).\<close>

definition initial_store :: store where
  "initial_store = \<lparr>popular_df = PFrame DataFrame_empty, pt = PFrame DataFrame_empty,
                     scores = PNone, all_books = []\<rparr>"

text \<open>\<open>df.empty\<close>: an axis of length 0.\<close>

definition frame_empty :: "frame \<Rightarrow> bool" where
  "frame_empty f = (row_list f = [] \<or> colnames f = [])"

text \<open>
  The attribute \<open>v.empty\<close> of a value: \<open>None\<close> and a numpy array have no such attribute.
\<close>

definition attr_empty :: "pyval \<Rightarrow> exn + bool" where
  "attr_empty v = (case v of PFrame f \<Rightarrow> Inr (frame_empty f) | _ \<Rightarrow> Inl AttributeError)"

text \<open>\<open>df.index.tolist()\<close>\<close>

definition index_tolist :: "frame \<Rightarrow> cell list" where
  "index_tolist f = map fst (row_list f)"

text \<open>\<open>len(df)\<close>\<close>

definition len_frame :: "frame \<Rightarrow> nat" where
  "len_frame f = length (row_list f)"

text \<open>The positions at which \<open>x\<close> occurs in \<open>xs\<close>.\<close>

definition positions :: "'a list \<Rightarrow> 'a \<Rightarrow> nat list" where
  "positions xs x = filter (\<lambda>i. xs ! i = x) [0..<length xs]"

text \<open>
  \<open>df[name].tolist()\<close> up to the exception: a missing label raises KeyError; one
  column with that label is a Series, whose values are returned; with several columns of that
  label pandas returns a DataFrame, on which the Series methods the source calls next
  (\<open>unique\<close> at line 47, \<open>tolist\<close> at lines 64 and 80) raise AttributeError.
\<close>

definition getitem :: "frame \<Rightarrow> string \<Rightarrow> exn + cell list" where
  "getitem f name =
     (case positions (colnames f) name of
        [] \<Rightarrow> Inl KeyError
      | [j] \<Rightarrow> Inr (map (\<lambda>r. snd r ! j) (row_list f))
      | _ \<Rightarrow> Inl AttributeError)"

text \<open>
  \<open>v[name]\<close> for a string \<open>name\<close>, as far as the Series of values: \<open>None\<close> is not
  subscriptable (TypeError) and a numpy array takes no string index (IndexError).
\<close>

definition subscript_name :: "pyval \<Rightarrow> string \<Rightarrow> exn + cell list" where
  "subscript_name v name =
     (case v of
        PFrame f \<Rightarrow> getitem f name
      | PNone \<Rightarrow> Inl TypeError
      | PArray m \<Rightarrow> Inl IndexError)"

text \<open>\<open>Series.unique()\<close>: the distinct values in order of first appearance.\<close>

fun unique_from :: "'a list \<Rightarrow> 'a list \<Rightarrow> 'a list" where
  "unique_from seen [] = []"
| "unique_from seen (x # xs) =
     (if x \<in> set seen then unique_from seen xs else x # unique_from (x # seen) xs)"

definition unique :: "'a list \<Rightarrow> 'a list" where
  "unique xs = unique_from [] xs"

text \<open>
  \<open>Series.sample(n)\<close> draws without replacement: numpy permutes the positions of the
  population and keeps the first \<open>n\<close>. The permutation \<open>perm\<close> is the random draw.
\<close>

definition sample :: "nat list \<Rightarrow> nat \<Rightarrow> 'a list \<Rightarrow> 'a list" where
  "sample perm n xs = map (\<lambda>p. xs ! p) (take n perm)"


section \<open>The mock data of the loader's fallback\<close>

text \<open>\<open>str(n)\<close> for a non-negative integer, as the f-strings format it.\<close>

definition digit_char :: "nat \<Rightarrow> char" where
  "digit_char d = ''0123456789'' ! d"

function str_nat :: "nat \<Rightarrow> string" where
  "str_nat n = (if n < 10 then [digit_char n] else str_nat (n div 10) @ [digit_char (n mod 10)])"
  by pat_completeness auto
termination
  by (relation "measure id") auto

declare str_nat.simps [simp del]

text \<open>One dict of the list comprehension at lines 58 to 60, keys in order.\<close>

definition mock_record :: "nat \<Rightarrow> (string \<times> cell) list" where
  "mock_record i =
     [(''Book-Title'', CStr (''Mock Popular Book '' @ str_nat i)),
      (''Book-Author'', CStr (''Author '' @ str_nat i)),
      (''Image-URL-M'', CStr (''https://placehold.co/80x120/4f46e5/ffffff?text=Book'' @ str_nat i)),
      (''Num-Ratings'', CNum (1000 + real i)),
      (''Avg-Rating'', CNum (4 + real i / 100))]"

text \<open>
  \<open>pd.DataFrame(records)\<close> for a list of dicts that all have the same keys: the columns are
  the keys in order, the index is \<open>RangeIndex(len(records))\<close>.
\<close>

definition DataFrame_of_records :: "(string \<times> cell) list list \<Rightarrow> frame" where
  "DataFrame_of_records recs =
     DataFrame (case recs of [] \<Rightarrow> [] | r # _ \<Rightarrow> map fst r)
       (map (\<lambda>(i, r). (CNum (real i), map snd r)) (zip [0..<length recs] recs))"

definition mock_popular_df :: frame where
  "mock_popular_df = DataFrame_of_records (map mock_record [1..<51])"

text \<open>
  The titles of the mock table, as the f-string of line 58 builds them over \<open>range(1, 51)\<close>:
  the value of \<open>popular_df['Book-Title'].tolist()\<close> at line 64.
\<close>

definition mock_titles :: "cell list" where
  "mock_titles = map (\<lambda>i. CStr (''Mock Popular Book '' @ str_nat i)) [1..<51]"

section \<open>load_model_components\<close>

text \<open>
  What \<open>pickle.load\<close> returned, by the shapes the source tells apart: a tuple or list (of
  any length) of values, a dict from strings to values, or a single value.
\<close>

datatype blob =
    BSeq "pyval list"
  | BDict "string \<rightharpoonup> pyval"
  | BVal pyval

text \<open>\<open>open\<close> and \<open>pickle.load\<close>: an exception (missing file, corrupt blob) or the object.\<close>

datatype read_result = ReadFails | ReadOk blob

text \<open>\<open>d.get(key, default)\<close>\<close>

definition dict_get :: "(string \<rightharpoonup> 'a) \<Rightarrow> string \<Rightarrow> 'a \<Rightarrow> 'a" where
  "dict_get d key dflt = (case d key of None \<Rightarrow> dflt | Some v \<Rightarrow> v)"

text \<open>
  Lines 30 to 40: the assignment of the globals from the loaded object. A sequence of fewer
  than three elements is neither a dict nor a DataFrame and takes the last branch.
\<close>

fun assign_components :: "blob \<Rightarrow> store \<Rightarrow> store" where
  "assign_components (BSeq xs) st =
     (if length xs \<ge> 3 then st\<lparr>popular_df := xs ! 0, pt := xs ! 1, scores := xs ! 2\<rparr>
      else st\<lparr>popular_df := PFrame DataFrame_empty\<rparr>)"
| "assign_components (BDict d) st =
     st\<lparr>popular_df := dict_get d ''popular_df'' (popular_df st),
        pt := dict_get d ''pt'' (pt st),
        scores := dict_get d ''scores'' (scores st)\<rparr>"
| "assign_components (BVal v) st =
     st\<lparr>popular_df := (case v of PFrame f \<Rightarrow> PFrame f | _ \<Rightarrow> PFrame DataFrame_empty)\<rparr>"

text \<open>
  Lines 43 to 47: the list of all titles, or the exception raised on the way: by
  \<open>pt.empty\<close> when \<open>pt\<close> is not a DataFrame, or by the column lookup.
\<close>

definition derive_all_books :: "store \<Rightarrow> exn + cell list" where
  "derive_all_books st =
     (case pt st of
        PFrame p \<Rightarrow>
          if \<not> frame_empty p then Inr (index_tolist p)
          else (case subscript_name (popular_df st) ''Book-Title'' of
                  Inl e \<Rightarrow> Inl e
                | Inr col \<Rightarrow> Inr (unique col))
      | _ \<Rightarrow> Inl AttributeError)"

text \<open>
  Lines 51 to 64, the \<open>except\<close> branch: it rebinds \<open>popular_df\<close> and \<open>all_books\<close> and
  nothing else, so \<open>pt\<close> and \<open>scores\<close> keep what they held when the exception was raised.
\<close>

definition mock_fallback :: "store \<Rightarrow> store" where
  "mock_fallback st =
     st\<lparr>popular_df := PFrame mock_popular_df,
        all_books := (case getitem mock_popular_df ''Book-Title'' of Inl _ \<Rightarrow> [] | Inr col \<Rightarrow> col)\<rparr>"

definition load_model_components :: "read_result \<Rightarrow> store \<Rightarrow> store" where
  "load_model_components r st =
     (case r of
        ReadFails \<Rightarrow> mock_fallback st
      | ReadOk b \<Rightarrow>
          (let st1 = assign_components b st
           in case derive_all_books st1 of
                Inl e \<Rightarrow> mock_fallback st1
              | Inr titles \<Rightarrow> st1\<lparr>all_books := titles\<rparr>))"

section \<open>recommend\<close>

text \<open>
  \<open>pt.index.get_loc(book_name)\<close> on a unique index: KeyError for an absent label, else the
  position of the label.
\<close>

definition get_loc :: "cell list \<Rightarrow> string \<Rightarrow> exn + nat" where
  "get_loc labels name =
     (case positions labels (CStr name) of
        [] \<Rightarrow> Inl KeyError
      | i # _ \<Rightarrow> Inr i)"

text \<open>
  \<open>sorted(items, key=lambda x: x[1], reverse=True)\<close>: CPython reverses the list, sorts it
  stably in ascending order of the key and reverses the result, so equal keys keep their
  original order.
\<close>

definition sorted_reverse :: "('a \<Rightarrow> 'k::linorder) \<Rightarrow> 'a list \<Rightarrow> 'a list" where
  "sorted_reverse key xs = rev (sort_key key (rev xs))"

text \<open>\<open>list(enumerate(row))\<close>\<close>

definition enumerate_list :: "'a list \<Rightarrow> (nat \<times> 'a) list" where
  "enumerate_list xs = zip [0..<length xs] xs"

text \<open>The loop of lines 90 to 94: \<open>pt.index[i]\<close> raises IndexError out of range.\<close>

fun titles_at :: "cell list \<Rightarrow> nat list \<Rightarrow> exn + cell list" where
  "titles_at labels [] = Inr []"
| "titles_at labels (i # js) =
     (if i < length labels
      then (case titles_at labels js of
              Inl e \<Rightarrow> Inl e
            | Inr ts \<Rightarrow> Inr (labels ! i # ts))
      else Inl IndexError)"

text \<open>
  Lines 84 to 96, the body of the \<open>try\<close>. \<open>scores[index]\<close> for the position \<open>index\<close> is
  a row of an array, IndexError past its last row; on a DataFrame it looks up a column
  labelled by that integer, of which there is none (KeyError); \<open>None\<close> is not subscriptable.
  The guard of \<open>recommend\<close> lets neither a \<open>pt\<close> that is no DataFrame nor a \<open>scores\<close> that is
  \<open>None\<close> reach the body.
\<close>

definition recommend_try :: "store \<Rightarrow> string \<Rightarrow> exn + cell list" where
  "recommend_try st book_name =
     (case pt st of
        PFrame p \<Rightarrow>
          (case get_loc (index_tolist p) book_name of
             Inl e \<Rightarrow> Inl e
           | Inr idx \<Rightarrow>
               (case scores st of
                  PNone \<Rightarrow> Inl TypeError
                | PFrame g \<Rightarrow> Inl KeyError
                | PArray m \<Rightarrow>
                    if idx < length m
                    then (let similar_items = enumerate_list (m ! idx);
                              sorted_items = take 5 (drop 1 (sorted_reverse snd similar_items))
                          in titles_at (index_tolist p) (map fst sorted_items))
                    else Inl IndexError))
      | _ \<Rightarrow> Inl AttributeError)"

definition msg_unavailable :: string where
  "msg_unavailable = ''Model data unavailable. Please check backend setup.''"

definition msg_not_found :: "string \<Rightarrow> string" where
  "msg_not_found book_name =
     ''Error: '' @ [CHR 0x27] @ book_name @ [CHR 0x27] @ '' not found in the trained model''
       @ [CHR 0x27] @ ''s index.''"

definition msg_unexpected :: string where
  "msg_unexpected = ''An unexpected error occurred during recommendation.''"

text \<open>
  Lines 74 to 80, the branch of the degraded store: \<open>popular_df.empty\<close> and the column
  lookup are outside the \<open>try\<close>, so their exceptions leave \<open>recommend\<close>.
\<close>

definition recommend_popular :: "nat list \<Rightarrow> store \<Rightarrow> exn + cell list" where
  "recommend_popular perm st =
     (case popular_df st of
        PFrame f \<Rightarrow>
          if frame_empty f then Inr [CStr msg_unavailable]
          else (case getitem f ''Book-Title'' of
                  Inl e \<Rightarrow> Inl e
                | Inr col \<Rightarrow> Inr (sample perm (min 5 (len_frame f)) col))
      | _ \<Rightarrow> Inl AttributeError)"

text \<open>
  \<open>recommend(book_name)\<close>; \<open>perm\<close> is the random draw of \<open>sample\<close>. The result is the
  returned list, or the exception that leaves the function. \<open>pt.empty\<close> at line 74 is
  evaluated first and outside the \<open>try\<close>.
\<close>

definition recommend :: "nat list \<Rightarrow> store \<Rightarrow> string \<Rightarrow> exn + cell list" where
  "recommend perm st book_name =
     (case attr_empty (pt st) of
        Inl e \<Rightarrow> Inl e
      | Inr pt_empty \<Rightarrow>
          if pt_empty \<or> scores st = PNone then recommend_popular perm st
          else (case recommend_try st book_name of
                  Inr recommendations \<Rightarrow> Inr recommendations
                | Inl KeyError \<Rightarrow> Inr [CStr (msg_not_found book_name)]
                | Inl _ \<Rightarrow> Inr [CStr msg_unexpected]))"

section \<open>Example stores\<close>

text \<open>A pivot of two books rated alike by one user, and its cosine similarities.\<close>

definition ex_pivot2 :: frame where
  "ex_pivot2 = DataFrame [''user1''] [(CStr ''A'', [CNum 5]), (CStr ''B'', [CNum 5])]"

definition ex_store2 :: store where
  "ex_store2 = \<lparr>popular_df = PFrame DataFrame_empty, pt = PFrame ex_pivot2,
                 scores = PArray [[1, 1], [1, 1]], all_books = [CStr ''A'', CStr ''B'']\<rparr>"

text \<open>A pivot of seven books.\<close>

definition ex_pivot7 :: frame where
  "ex_pivot7 = DataFrame [''user1'']
                 (map (\<lambda>t. (CStr t, [CNum 0])) [''A'', ''B'', ''C'', ''D'', ''E'', ''F'', ''G''])"

text \<open>A popularity table of two books, and one whose title column has another name.\<close>

definition ex_popular :: frame where
  "ex_popular = DataFrame [''Book-Title'', ''Num-Ratings'']
                  [(CNum 0, [CStr ''A'', CNum 10]), (CNum 1, [CStr ''B'', CNum 7])]"



section \<open>DataFrames, columns and the mock table\<close>

lemma row_list_DataFrame: "distinct (map fst rs) \<Longrightarrow> row_list (DataFrame cols rs) = rs"
  by (simp add: row_list_def DataFrame_def impl_of_Alist)

lemma colnames_DataFrame: "colnames (DataFrame cols rs) = cols"
  by (simp add: DataFrame_def)

lemma index_tolist_distinct: "distinct (index_tolist f)"
  by (simp add: index_tolist_def row_list_def)

lemma DataFrame_empty_empty: "frame_empty DataFrame_empty"
  by (simp add: frame_empty_def DataFrame_empty_def colnames_DataFrame)

lemma colnames_DataFrame_empty: "colnames DataFrame_empty = []"
  by (simp add: DataFrame_empty_def colnames_DataFrame)

lemma positions_empty_iff: "positions xs x = [] \<longleftrightarrow> x \<notin> set xs"
  by (auto simp: positions_def filter_empty_conv in_set_conv_nth)

lemma getitem_single:
  "positions (colnames f) name = [j] \<Longrightarrow> getitem f name = Inr (map (\<lambda>r. snd r ! j) (row_list f))"
  by (simp add: getitem_def)


lemma getitem_absent: "name \<notin> set (colnames f) \<Longrightarrow> getitem f name = Inl KeyError"
  by (simp add: getitem_def positions_empty_iff [THEN iffD2])

lemma range_labels_distinct:
  "distinct (map fst (map (\<lambda>(i, r). (CNum (real i), g r)) (zip [0..<length recs] recs)))"
proof -
  have "map fst (map (\<lambda>(i, r). (CNum (real i), g r)) (zip [0..<length recs] recs))
          = map (\<lambda>i. CNum (real i)) [0..<length recs]"
    by (rule nth_equalityI) simp_all
  moreover have "distinct (map (\<lambda>i. CNum (real i)) [0..<length recs])"
    by (simp add: distinct_map inj_on_def)
  ultimately show ?thesis
    by simp
qed

lemma row_list_of_records:
  "row_list (DataFrame_of_records recs)
     = map (\<lambda>(i, r). (CNum (real i), map snd r)) (zip [0..<length recs] recs)"
  unfolding DataFrame_of_records_def by (rule row_list_DataFrame) (rule range_labels_distinct)

lemma colnames_mock:
  "colnames mock_popular_df
     = [''Book-Title'', ''Book-Author'', ''Image-URL-M'', ''Num-Ratings'', ''Avg-Rating'']"
  by (simp add: mock_popular_df_def DataFrame_of_records_def colnames_DataFrame upt_rec mock_record_def)

lemma rows_mock:
  "row_list mock_popular_df
     = map (\<lambda>(k, i). (CNum (real k), map snd (mock_record i))) (zip [0..<50] [1..<51])"
  by (simp add: mock_popular_df_def row_list_of_records zip_map2 case_prod_unfold)

lemma len_mock: "len_frame mock_popular_df = 50"
  by (simp add: len_frame_def rows_mock)


lemma getitem_mock_titles: "getitem mock_popular_df ''Book-Title'' = Inr mock_titles"
proof -
  have pos: "positions (colnames mock_popular_df) ''Book-Title'' = [0]"
    by (simp add: colnames_mock positions_def upt_rec)
  have col: "map (\<lambda>r. snd r ! 0) (row_list mock_popular_df) = mock_titles"
    unfolding rows_mock mock_titles_def by (rule nth_equalityI) (simp_all add: mock_record_def)
  show ?thesis
    by (simp only: getitem_single [OF pos] col)
qed

lemma getitem_mock_ratings:
  "getitem mock_popular_df ''Num-Ratings'' = Inr (map (\<lambda>i. CNum (1000 + real i)) [1..<51])"
proof -
  have pos: "positions (colnames mock_popular_df) ''Num-Ratings'' = [3]"
    by (simp add: colnames_mock positions_def upt_rec)
  have col: "map (\<lambda>r. snd r ! 3) (row_list mock_popular_df)
               = map (\<lambda>i. CNum (1000 + real i)) [1..<51]"
    unfolding rows_mock by (rule nth_equalityI) (simp_all add: mock_record_def)
  show ?thesis
    by (simp only: getitem_single [OF pos] col)
qed

lemma mock_titles_explicit:
  "mock_titles =
     map CStr
       [''Mock Popular Book 1'', ''Mock Popular Book 2'', ''Mock Popular Book 3'', ''Mock Popular Book 4'',
        ''Mock Popular Book 5'', ''Mock Popular Book 6'', ''Mock Popular Book 7'', ''Mock Popular Book 8'',
        ''Mock Popular Book 9'', ''Mock Popular Book 10'', ''Mock Popular Book 11'', ''Mock Popular Book 12'',
        ''Mock Popular Book 13'', ''Mock Popular Book 14'', ''Mock Popular Book 15'', ''Mock Popular Book 16'',
        ''Mock Popular Book 17'', ''Mock Popular Book 18'', ''Mock Popular Book 19'', ''Mock Popular Book 20'',
        ''Mock Popular Book 21'', ''Mock Popular Book 22'', ''Mock Popular Book 23'', ''Mock Popular Book 24'',
        ''Mock Popular Book 25'', ''Mock Popular Book 26'', ''Mock Popular Book 27'', ''Mock Popular Book 28'',
        ''Mock Popular Book 29'', ''Mock Popular Book 30'', ''Mock Popular Book 31'', ''Mock Popular Book 32'',
        ''Mock Popular Book 33'', ''Mock Popular Book 34'', ''Mock Popular Book 35'', ''Mock Popular Book 36'',
        ''Mock Popular Book 37'', ''Mock Popular Book 38'', ''Mock Popular Book 39'', ''Mock Popular Book 40'',
        ''Mock Popular Book 41'', ''Mock Popular Book 42'', ''Mock Popular Book 43'', ''Mock Popular Book 44'',
        ''Mock Popular Book 45'', ''Mock Popular Book 46'', ''Mock Popular Book 47'', ''Mock Popular Book 48'',
        ''Mock Popular Book 49'', ''Mock Popular Book 50'']"
  by (simp add: mock_titles_def upt_rec str_nat.simps digit_char_def)

lemma distinct_map_CStr: "distinct (map CStr xs) = distinct xs"
  by (simp add: distinct_map inj_on_def)

lemma mock_titles_distinct: "distinct mock_titles"
  unfolding mock_titles_explicit distinct_map_CStr by simp

lemma mock_ratings_increasing:
  "\<exists>ns. getitem mock_popular_df ''Num-Ratings'' = Inr (map CNum ns) \<and> length ns = 50
         \<and> sorted_wrt (<) ns"
proof -
  have "getitem mock_popular_df ''Num-Ratings''
          = Inr (map CNum (map (\<lambda>i. 1000 + real i) [1..<51]))"
    by (simp add: getitem_mock_ratings)
  moreover have "sorted_wrt (<) (map (\<lambda>i. 1000 + real i) [1..<51])"
    by (simp add: sorted_wrt_map)
  moreover have "length (map (\<lambda>i. 1000 + real i) [1..<51]) = 50"
    by simp
  ultimately show ?thesis
    by blast
qed

lemma unique_from_distinct:
  "distinct xs \<Longrightarrow> set xs \<inter> set seen = {} \<Longrightarrow> unique_from seen xs = xs"
  by (induction xs arbitrary: seen) auto

lemma unique_distinct: "distinct xs \<Longrightarrow> unique xs = xs"
  by (simp add: unique_def unique_from_distinct)

text \<open>The example frames.\<close>

lemma row_list_ex_pivot2: "row_list ex_pivot2 = [(CStr ''A'', [CNum 5]), (CStr ''B'', [CNum 5])]"
  by (simp add: ex_pivot2_def row_list_DataFrame)

lemma row_list_ex_pivot7:
  "row_list ex_pivot7
     = map (\<lambda>t. (CStr t, [CNum 0])) [''A'', ''B'', ''C'', ''D'', ''E'', ''F'', ''G'']"
  by (simp add: ex_pivot7_def row_list_DataFrame)


lemma row_list_DataFrame_empty: "row_list DataFrame_empty = []"
  by (simp add: DataFrame_empty_def row_list_DataFrame)

section \<open>Properties of load_model_components\<close>

lemma mock_fallback_eq:
  "mock_fallback st = st\<lparr>popular_df := PFrame mock_popular_df, all_books := mock_titles\<rparr>"
  by (simp add: mock_fallback_def getitem_mock_titles)

lemma mock_fallback_idem: "mock_fallback (mock_fallback st) = mock_fallback st"
  by (simp add: mock_fallback_eq)

lemma derive_all_books_upd [simp]:
  "derive_all_books (st\<lparr>all_books := ts\<rparr>) = derive_all_books st"
  by (simp add: derive_all_books_def split: pyval.split)

lemma derive_all_books_fails:
  "derive_all_books st = Inl e \<Longrightarrow> pt st = PFrame p \<Longrightarrow> frame_empty p"
  by (auto simp add: derive_all_books_def split: if_splits)

lemma derive_all_books_after_fallback:
  assumes "derive_all_books st = Inl e"
  shows "derive_all_books (mock_fallback st) = Inr mock_titles
       \<or> (\<exists>e'. derive_all_books (mock_fallback st) = Inl e')"
proof (cases "pt st")
  case (PFrame p)
  with assms have "frame_empty p"
    by (rule derive_all_books_fails)
  with PFrame have "derive_all_books (mock_fallback st) = Inr mock_titles"
    by (simp add: derive_all_books_def mock_fallback_eq subscript_name_def getitem_mock_titles
        unique_distinct mock_titles_distinct)
  then show ?thesis
    by simp
qed (simp_all add: derive_all_books_def mock_fallback_eq)

lemma dict_get_idem: "dict_get d k (dict_get d k x) = dict_get d k x"
  by (simp add: dict_get_def split: option.splits)

lemma assign_components_idem:
  "assign_components b (assign_components b st) = assign_components b st"
  by (cases b) (simp_all add: dict_get_idem)

lemma assign_components_all_books:
  "assign_components b (st\<lparr>all_books := ts\<rparr>) = (assign_components b st)\<lparr>all_books := ts\<rparr>"
  by (cases b) simp_all

lemma load_ok_success:
  "derive_all_books (assign_components b st) = Inr ts \<Longrightarrow>
   load_model_components (ReadOk b) st = (assign_components b st)\<lparr>all_books := ts\<rparr>"
  by (simp add: load_model_components_def)

lemma load_ok_failure:
  "derive_all_books (assign_components b st) = Inl e \<Longrightarrow>
   load_model_components (ReadOk b) st = mock_fallback (assign_components b st)"
  by (simp add: load_model_components_def)

lemma assign_seq_after_fallback:
  "assign_components (BSeq xs) (mock_fallback (assign_components (BSeq xs) st))
     = (assign_components (BSeq xs) st)\<lparr>all_books := mock_titles\<rparr>"
  by (simp add: mock_fallback_eq)

lemma assign_val_after_fallback:
  "assign_components (BVal v) (mock_fallback (assign_components (BVal v) st))
     = (assign_components (BVal v) st)\<lparr>all_books := mock_titles\<rparr>"
  by (simp add: mock_fallback_eq)

lemma assign_dict_after_fallback_present:
  "d ''popular_df'' = Some v \<Longrightarrow>
   assign_components (BDict d) (mock_fallback (assign_components (BDict d) st))
     = (assign_components (BDict d) st)\<lparr>all_books := mock_titles\<rparr>"
  by (simp add: mock_fallback_eq dict_get_def split: option.splits)

lemma assign_dict_after_fallback_absent:
  "d ''popular_df'' = None \<Longrightarrow>
   assign_components (BDict d) (mock_fallback (assign_components (BDict d) st))
     = mock_fallback (assign_components (BDict d) st)"
  by (simp add: mock_fallback_eq dict_get_def split: option.splits)

lemma assign_after_fallback:
  "assign_components b (mock_fallback (assign_components b st)) = mock_fallback (assign_components b st)
   \<or> assign_components b (mock_fallback (assign_components b st))
       = (assign_components b st)\<lparr>all_books := mock_titles\<rparr>"
proof (cases b)
  case (BSeq xs)
  then show ?thesis using assign_seq_after_fallback by simp
next
  case (BDict d)
  then show ?thesis
    using assign_dict_after_fallback_present [of d _ st] assign_dict_after_fallback_absent [of d st]
    by (cases "d ''popular_df''") simp_all
next
  case (BVal v)
  then show ?thesis using assign_val_after_fallback by simp
qed

lemma derive_all_books_succeeds:
  "derive_all_books st = Inr ts \<Longrightarrow> \<exists>p. pt st = PFrame p"
  by (cases "pt st") (simp_all add: derive_all_books_def)

text \<open>
  After any load the pivot is a DataFrame, or else the popularity table is the mock table.
\<close>

lemma load_pivot_table_or_mock:
  "(\<exists>p. pt (load_model_components r st) = PFrame p)
   \<or> popular_df (load_model_components r st) = PFrame mock_popular_df"
proof (cases r)
  case ReadFails
  then show ?thesis
    by (simp add: load_model_components_def mock_fallback_eq)
next
  case (ReadOk b)
  show ?thesis
  proof (cases "derive_all_books (assign_components b st)")
    case (Inl e)
    then show ?thesis
      using ReadOk by (simp add: load_ok_failure mock_fallback_eq)
  next
    case (Inr ts)
    then obtain p where "pt (assign_components b st) = PFrame p"
      using derive_all_books_succeeds by blast
    then show ?thesis
      using ReadOk Inr by (simp add: load_ok_success)
  qed
qed



text \<open>
  C6, as stated: when loading fails, pivot and similarity matrix are left unset or empty.
  The \<open>except\<close> branch assigns neither. A tuple of two empty DataFrames and a matrix fails
  in the title derivation after \<open>scores\<close> was assigned, so the matrix stays present; and a
  failed read after a successful load keeps the loaded pivot and matrix.
\<close>

theorem load_failure_keeps_pivot_and_scores:
  "derive_all_books
     (assign_components (BSeq [PFrame DataFrame_empty, PFrame DataFrame_empty, PArray [[1]]])
        initial_store) = Inl KeyError
   \<and> popular_df (load_model_components
        (ReadOk (BSeq [PFrame DataFrame_empty, PFrame DataFrame_empty, PArray [[1]]]))
        initial_store) = PFrame mock_popular_df
   \<and> scores (load_model_components
        (ReadOk (BSeq [PFrame DataFrame_empty, PFrame DataFrame_empty, PArray [[1]]]))
        initial_store) = PArray [[1]]
   \<and> load_model_components
        (ReadOk (BSeq [PFrame DataFrame_empty, PFrame ex_pivot2, PArray [[1, 1], [1, 1]]]))
        initial_store = ex_store2
   \<and> popular_df (load_model_components ReadFails ex_store2) = PFrame mock_popular_df
   \<and> pt (load_model_components ReadFails ex_store2) = PFrame ex_pivot2
   \<and> \<not> frame_empty ex_pivot2
   \<and> scores (load_model_components ReadFails ex_store2) = PArray [[1, 1], [1, 1]]"
proof -
  let ?b = "BSeq [PFrame DataFrame_empty, PFrame DataFrame_empty, PArray [[1]]]"
  have a: "derive_all_books (assign_components ?b initial_store) = Inl KeyError"
    by (simp add: derive_all_books_def DataFrame_empty_empty subscript_name_def getitem_absent
        colnames_DataFrame_empty)
  have ld: "load_model_components (ReadOk ?b) initial_store
              = mock_fallback (assign_components ?b initial_store)"
    using a by (rule load_ok_failure)
  have a1: "popular_df (load_model_components (ReadOk ?b) initial_store) = PFrame mock_popular_df"
    unfolding ld mock_fallback_eq by simp
  have a2: "scores (load_model_components (ReadOk ?b) initial_store) = PArray [[1]]"
    unfolding ld mock_fallback_eq by simp
  have c: "\<not> frame_empty ex_pivot2"
    by (simp add: frame_empty_def row_list_ex_pivot2) (simp add: ex_pivot2_def colnames_DataFrame)
  have b: "load_model_components
        (ReadOk (BSeq [PFrame DataFrame_empty, PFrame ex_pivot2, PArray [[1, 1], [1, 1]]]))
        initial_store = ex_store2"
    using c
    by (simp add: load_model_components_def derive_all_books_def index_tolist_def
        row_list_ex_pivot2 ex_store2_def initial_store_def)
  have d: "load_model_components ReadFails ex_store2 = mock_fallback ex_store2"
    by (simp add: load_model_components_def)
  have d1: "popular_df (load_model_components ReadFails ex_store2) = PFrame mock_popular_df"
    unfolding d mock_fallback_eq by simp
  have d2: "pt (load_model_components ReadFails ex_store2) = PFrame ex_pivot2"
    unfolding d mock_fallback_eq by (simp add: ex_store2_def)
  have d3: "scores (load_model_components ReadFails ex_store2) = PArray [[1, 1], [1, 1]]"
    unfolding d mock_fallback_eq by (simp add: ex_store2_def)
  from a a1 a2 b c d1 d2 d3 show ?thesis
    by blast
qed

text \<open>
  C6, amended: when reading the blob fails, or an exception is raised after the assignment
  (the pivot is not a DataFrame, or the title derivation fails), the popularity table
  becomes the 50 mock entries, titled "Mock Popular Book 1" to "Mock Popular Book 50" in
  order, with strictly increasing \<open>Num-Ratings\<close>, and \<open>all_books\<close> becomes these 50 titles.
  Pivot and similarity matrix are not assigned by the fallback: after a failed read they are
  what they were before the call (empty and unset from the initial store); after a later
  exception they are what the blob assigned.
\<close>

theorem load_failure_mock_fallback:
  assumes "r = ReadFails
           \<or> (\<exists>b e. r = ReadOk b \<and> derive_all_books (assign_components b st) = Inl e)"
  shows "popular_df (load_model_components r st) = PFrame mock_popular_df
       \<and> len_frame mock_popular_df = 50
       \<and> getitem mock_popular_df ''Book-Title''
           = Inr (map CStr
       [''Mock Popular Book 1'', ''Mock Popular Book 2'', ''Mock Popular Book 3'', ''Mock Popular Book 4'',
        ''Mock Popular Book 5'', ''Mock Popular Book 6'', ''Mock Popular Book 7'', ''Mock Popular Book 8'',
        ''Mock Popular Book 9'', ''Mock Popular Book 10'', ''Mock Popular Book 11'', ''Mock Popular Book 12'',
        ''Mock Popular Book 13'', ''Mock Popular Book 14'', ''Mock Popular Book 15'', ''Mock Popular Book 16'',
        ''Mock Popular Book 17'', ''Mock Popular Book 18'', ''Mock Popular Book 19'', ''Mock Popular Book 20'',
        ''Mock Popular Book 21'', ''Mock Popular Book 22'', ''Mock Popular Book 23'', ''Mock Popular Book 24'',
        ''Mock Popular Book 25'', ''Mock Popular Book 26'', ''Mock Popular Book 27'', ''Mock Popular Book 28'',
        ''Mock Popular Book 29'', ''Mock Popular Book 30'', ''Mock Popular Book 31'', ''Mock Popular Book 32'',
        ''Mock Popular Book 33'', ''Mock Popular Book 34'', ''Mock Popular Book 35'', ''Mock Popular Book 36'',
        ''Mock Popular Book 37'', ''Mock Popular Book 38'', ''Mock Popular Book 39'', ''Mock Popular Book 40'',
        ''Mock Popular Book 41'', ''Mock Popular Book 42'', ''Mock Popular Book 43'', ''Mock Popular Book 44'',
        ''Mock Popular Book 45'', ''Mock Popular Book 46'', ''Mock Popular Book 47'', ''Mock Popular Book 48'',
        ''Mock Popular Book 49'', ''Mock Popular Book 50''])
       \<and> (\<exists>ns. getitem mock_popular_df ''Num-Ratings'' = Inr (map CNum ns)
                \<and> length ns = 50 \<and> sorted_wrt (<) ns)
       \<and> Inr (all_books (load_model_components r st)) = getitem mock_popular_df ''Book-Title''
       \<and> (r = ReadFails \<longrightarrow> pt (load_model_components r st) = pt st
                             \<and> scores (load_model_components r st) = scores st)
       \<and> (\<forall>b. r = ReadOk b \<longrightarrow> pt (load_model_components r st) = pt (assign_components b st)
                             \<and> scores (load_model_components r st) = scores (assign_components b st))"
proof -
  have titles: "getitem mock_popular_df ''Book-Title''
           = Inr (map CStr
       [''Mock Popular Book 1'', ''Mock Popular Book 2'', ''Mock Popular Book 3'', ''Mock Popular Book 4'',
        ''Mock Popular Book 5'', ''Mock Popular Book 6'', ''Mock Popular Book 7'', ''Mock Popular Book 8'',
        ''Mock Popular Book 9'', ''Mock Popular Book 10'', ''Mock Popular Book 11'', ''Mock Popular Book 12'',
        ''Mock Popular Book 13'', ''Mock Popular Book 14'', ''Mock Popular Book 15'', ''Mock Popular Book 16'',
        ''Mock Popular Book 17'', ''Mock Popular Book 18'', ''Mock Popular Book 19'', ''Mock Popular Book 20'',
        ''Mock Popular Book 21'', ''Mock Popular Book 22'', ''Mock Popular Book 23'', ''Mock Popular Book 24'',
        ''Mock Popular Book 25'', ''Mock Popular Book 26'', ''Mock Popular Book 27'', ''Mock Popular Book 28'',
        ''Mock Popular Book 29'', ''Mock Popular Book 30'', ''Mock Popular Book 31'', ''Mock Popular Book 32'',
        ''Mock Popular Book 33'', ''Mock Popular Book 34'', ''Mock Popular Book 35'', ''Mock Popular Book 36'',
        ''Mock Popular Book 37'', ''Mock Popular Book 38'', ''Mock Popular Book 39'', ''Mock Popular Book 40'',
        ''Mock Popular Book 41'', ''Mock Popular Book 42'', ''Mock Popular Book 43'', ''Mock Popular Book 44'',
        ''Mock Popular Book 45'', ''Mock Popular Book 46'', ''Mock Popular Book 47'', ''Mock Popular Book 48'',
        ''Mock Popular Book 49'', ''Mock Popular Book 50''])"
    by (simp only: getitem_mock_titles mock_titles_explicit)
  have fallback: "popular_df (mock_fallback s) = PFrame mock_popular_df"
    "Inr (all_books (mock_fallback s)) = getitem mock_popular_df ''Book-Title''"
    "pt (mock_fallback s) = pt s" "scores (mock_fallback s) = scores s" for s
    unfolding mock_fallback_eq by (simp_all add: getitem_mock_titles)
  show ?thesis
  proof (cases r)
    case ReadFails
    have ld: "load_model_components r st = mock_fallback st"
      by (simp add: ReadFails load_model_components_def)
    show ?thesis
      unfolding ld
      apply (intro conjI)
            apply (rule fallback)
           apply (rule len_mock)
          apply (rule titles)
         apply (rule mock_ratings_increasing)
        apply (rule fallback)
       apply (simp only: fallback simp_thms)
      apply (simp only: ReadFails read_result.distinct simp_thms)
      done
  next
    case (ReadOk b)
    with assms obtain e where "derive_all_books (assign_components b st) = Inl e"
      by auto
    then have ld: "load_model_components r st = mock_fallback (assign_components b st)"
      by (simp add: ReadOk load_ok_failure)
    show ?thesis
      unfolding ld
      apply (intro conjI)
            apply (rule fallback)
           apply (rule len_mock)
          apply (rule titles)
         apply (rule mock_ratings_increasing)
        apply (rule fallback)
       apply (simp only: ReadOk read_result.distinct simp_thms)
      apply (simp only: ReadOk read_result.inject fallback simp_thms)
      done
  qed
qed

theorem load_failure_mock_fallback_witness:
  "popular_df (load_model_components ReadFails initial_store) = PFrame mock_popular_df
   \<and> Inr (all_books (load_model_components ReadFails initial_store))
       = getitem mock_popular_df ''Book-Title''
   \<and> pt (load_model_components ReadFails initial_store) = PFrame DataFrame_empty
   \<and> scores (load_model_components ReadFails initial_store) = PNone
   \<and> derive_all_books (assign_components (BSeq [PFrame ex_popular, PNone, PNone]) initial_store)
       = Inl AttributeError
   \<and> popular_df (load_model_components (ReadOk (BSeq [PFrame ex_popular, PNone, PNone]))
        initial_store) = PFrame mock_popular_df
   \<and> pt (load_model_components (ReadOk (BSeq [PFrame ex_popular, PNone, PNone])) initial_store)
       = PNone"
proof -
  let ?b = "BSeq [PFrame ex_popular, PNone, PNone]"
  have init: "pt initial_store = PFrame DataFrame_empty" "scores initial_store = PNone"
    by (simp_all add: initial_store_def)
  have fails: "derive_all_books (assign_components ?b initial_store) = Inl AttributeError"
    by (simp add: derive_all_books_def)
  have assigned: "pt (assign_components ?b initial_store) = PNone"
    by simp
  have hyp: "ReadOk ?b = ReadFails
             \<or> (\<exists>b e. ReadOk ?b = ReadOk b \<and> derive_all_books (assign_components b initial_store) = Inl e)"
    using fails by blast
  from load_failure_mock_fallback [of ReadFails initial_store]
  have first: "popular_df (load_model_components ReadFails initial_store) = PFrame mock_popular_df"
    "Inr (all_books (load_model_components ReadFails initial_store))
       = getitem mock_popular_df ''Book-Title''"
    "pt (load_model_components ReadFails initial_store) = pt initial_store"
    "scores (load_model_components ReadFails initial_store) = scores initial_store"
    by simp_all
  from load_failure_mock_fallback [OF hyp]
  have second: "popular_df (load_model_components (ReadOk ?b) initial_store) = PFrame mock_popular_df"
    "pt (load_model_components (ReadOk ?b) initial_store) = pt (assign_components ?b initial_store)"
    by simp_all
  show ?thesis
    apply (intro conjI)
          apply (rule first)
         apply (rule first)
        apply (simp only: first init)
       apply (simp only: first init)
      apply (rule fails)
     apply (rule second)
    apply (simp only: second assigned)
    done
qed

text \<open>
  C7: loading the same blob twice in succession gives the store of the first load, field by
  field. It holds for every outcome of reading the blob, the failed read included.
\<close>

theorem load_idempotent:
  "load_model_components r (load_model_components r st) = load_model_components r st"
proof (cases r)
  case ReadFails
  then show ?thesis by (simp add: load_model_components_def mock_fallback_idem)
next
  case (ReadOk b)
  let ?st1 = "assign_components b st"
  show ?thesis
  proof (cases "derive_all_books ?st1")
    case (Inr ts)
    have eq: "assign_components b (?st1\<lparr>all_books := ts\<rparr>) = ?st1\<lparr>all_books := ts\<rparr>"
      by (simp only: assign_components_all_books assign_components_idem)
    have "derive_all_books (?st1\<lparr>all_books := ts\<rparr>) = Inr ts"
      using Inr by simp
    then have "load_model_components (ReadOk b) (?st1\<lparr>all_books := ts\<rparr>) = ?st1\<lparr>all_books := ts\<rparr>"
      by (simp add: load_model_components_def eq)
    moreover have "load_model_components (ReadOk b) st = ?st1\<lparr>all_books := ts\<rparr>"
      using Inr by (rule load_ok_success)
    ultimately show ?thesis
      using ReadOk by simp
  next
    case (Inl e)
    let ?s1 = "mock_fallback ?st1"
    have s1: "load_model_components (ReadOk b) st = ?s1"
      using Inl by (rule load_ok_failure)
    from assign_after_fallback [of b st]
    have "load_model_components (ReadOk b) ?s1 = ?s1"
    proof
      assume same: "assign_components b ?s1 = ?s1"
      from derive_all_books_after_fallback [OF Inl]
      show ?thesis
      proof
        assume "derive_all_books ?s1 = Inr mock_titles"
        then have "load_model_components (ReadOk b) ?s1 = ?s1\<lparr>all_books := mock_titles\<rparr>"
          by (simp add: load_model_components_def same)
        then show ?thesis
          by (simp add: mock_fallback_eq)
      next
        assume "\<exists>e'. derive_all_books ?s1 = Inl e'"
        then obtain e' where "derive_all_books ?s1 = Inl e'" ..
        then have "load_model_components (ReadOk b) ?s1 = mock_fallback ?s1"
          by (simp add: load_model_components_def same)
        then show ?thesis
          by (simp only: mock_fallback_idem)
      qed
    next
      assume undone: "assign_components b ?s1 = ?st1\<lparr>all_books := mock_titles\<rparr>"
      have "derive_all_books (?st1\<lparr>all_books := mock_titles\<rparr>) = Inl e"
        using Inl by simp
      then have "load_model_components (ReadOk b) ?s1 = mock_fallback (?st1\<lparr>all_books := mock_titles\<rparr>)"
        by (simp add: load_model_components_def undone)
      then show ?thesis
        by (simp add: mock_fallback_eq)
    qed
    then show ?thesis
      using s1 ReadOk by simp
  qed
qed

text \<open>
  C10: when the blob is read but, after the assignment, the pivot is empty and the
  popularity table has no \<open>Book-Title\<close> column, the title derivation raises KeyError and the
  loader ends in the mock fallback: the 50 mock entries and their titles as \<open>all_books\<close>,
  not the assigned table with an empty title list.
\<close>

theorem load_title_derivation_failure:
  assumes "pt (assign_components b st) = PFrame p" and "frame_empty p"
    and "popular_df (assign_components b st) = PFrame f"
    and "''Book-Title'' \<notin> set (colnames f)"
  shows "derive_all_books (assign_components b st) = Inl KeyError
       \<and> load_model_components (ReadOk b) st
           = (assign_components b st)\<lparr>popular_df := PFrame mock_popular_df,
                all_books := map CStr
       [''Mock Popular Book 1'', ''Mock Popular Book 2'', ''Mock Popular Book 3'', ''Mock Popular Book 4'',
        ''Mock Popular Book 5'', ''Mock Popular Book 6'', ''Mock Popular Book 7'', ''Mock Popular Book 8'',
        ''Mock Popular Book 9'', ''Mock Popular Book 10'', ''Mock Popular Book 11'', ''Mock Popular Book 12'',
        ''Mock Popular Book 13'', ''Mock Popular Book 14'', ''Mock Popular Book 15'', ''Mock Popular Book 16'',
        ''Mock Popular Book 17'', ''Mock Popular Book 18'', ''Mock Popular Book 19'', ''Mock Popular Book 20'',
        ''Mock Popular Book 21'', ''Mock Popular Book 22'', ''Mock Popular Book 23'', ''Mock Popular Book 24'',
        ''Mock Popular Book 25'', ''Mock Popular Book 26'', ''Mock Popular Book 27'', ''Mock Popular Book 28'',
        ''Mock Popular Book 29'', ''Mock Popular Book 30'', ''Mock Popular Book 31'', ''Mock Popular Book 32'',
        ''Mock Popular Book 33'', ''Mock Popular Book 34'', ''Mock Popular Book 35'', ''Mock Popular Book 36'',
        ''Mock Popular Book 37'', ''Mock Popular Book 38'', ''Mock Popular Book 39'', ''Mock Popular Book 40'',
        ''Mock Popular Book 41'', ''Mock Popular Book 42'', ''Mock Popular Book 43'', ''Mock Popular Book 44'',
        ''Mock Popular Book 45'', ''Mock Popular Book 46'', ''Mock Popular Book 47'', ''Mock Popular Book 48'',
        ''Mock Popular Book 49'', ''Mock Popular Book 50'']\<rparr>
       \<and> len_frame mock_popular_df = 50
       \<and> load_model_components (ReadOk b) st \<noteq> (assign_components b st)\<lparr>all_books := []\<rparr>"
proof -
  have fails: "derive_all_books (assign_components b st) = Inl KeyError"
    using assms by (simp add: derive_all_books_def subscript_name_def getitem_absent)
  have ld: "load_model_components (ReadOk b) st
           = (assign_components b st)\<lparr>popular_df := PFrame mock_popular_df, all_books := mock_titles\<rparr>"
    using fails by (simp add: load_ok_failure mock_fallback_eq)
  have "all_books (load_model_components (ReadOk b) st) \<noteq> []"
    unfolding ld by (simp add: mock_titles_def)
  then have "load_model_components (ReadOk b) st \<noteq> (assign_components b st)\<lparr>all_books := []\<rparr>"
    by auto
  then show ?thesis
    using fails ld len_mock by (simp only: mock_titles_explicit simp_thms)
qed

theorem load_title_derivation_failure_witness:
  "pt (assign_components (BDict Map.empty) initial_store) = PFrame DataFrame_empty
   \<and> frame_empty DataFrame_empty
   \<and> popular_df (assign_components (BDict Map.empty) initial_store) = PFrame DataFrame_empty
   \<and> ''Book-Title'' \<notin> set (colnames DataFrame_empty)
   \<and> derive_all_books (assign_components (BDict Map.empty) initial_store) = Inl KeyError
   \<and> len_frame mock_popular_df = 50
   \<and> load_model_components (ReadOk (BDict Map.empty)) initial_store
       \<noteq> (assign_components (BDict Map.empty) initial_store)\<lparr>all_books := []\<rparr>"
proof -
  have a: "pt (assign_components (BDict Map.empty) initial_store) = PFrame DataFrame_empty"
    by (simp add: dict_get_def initial_store_def)
  have b: "popular_df (assign_components (BDict Map.empty) initial_store) = PFrame DataFrame_empty"
    by (simp add: dict_get_def initial_store_def)
  have c: "''Book-Title'' \<notin> set (colnames DataFrame_empty)"
    by (simp add: colnames_DataFrame_empty)
  from load_title_derivation_failure [OF a DataFrame_empty_empty b c] a b c DataFrame_empty_empty
  show ?thesis
    by blast
qed

section \<open>Properties of recommend on a loaded store\<close>

subsection \<open>The ranking\<close>

lemma insort_key_ties:
  assumes "sorted_wrt (\<lambda>a b. key a < key b \<or> (key a = key b \<and> Q a b)) zs"
    and "\<forall>z\<in>set zs. Q y z"
  shows "sorted_wrt (\<lambda>a b. key a < key b \<or> (key a = key b \<and> Q a b)) (insort_key key y zs)"
  using assms
proof (induction zs)
  case Nil
  then show ?case by simp
next
  case (Cons z zs)
  show ?case
  proof (cases "key y \<le> key z")
    case True
    have "key y < key w \<or> (key y = key w \<and> Q y w)" if "w \<in> set (z # zs)" for w
    proof -
      have "key z \<le> key w"
        using that Cons.prems(1) by auto
      with True have "key y \<le> key w"
        by simp
      moreover have "Q y w"
        using that Cons.prems(2) by auto
      ultimately show ?thesis
        by auto
    qed
    with True Cons.prems(1) show ?thesis
      by simp
  next
    case False
    then have "key z < key y"
      by simp
    moreover have "sorted_wrt (\<lambda>a b. key a < key b \<or> (key a = key b \<and> Q a b)) (insort_key key y zs)"
      using Cons by simp
    ultimately show ?thesis
      using False Cons.prems(1) by (auto simp add: set_insort_key)
  qed
qed

lemma sort_key_ties:
  "sorted_wrt Q ys \<Longrightarrow>
   sorted_wrt (\<lambda>a b. key a < key b \<or> (key a = key b \<and> Q a b)) (sort_key key ys)"
  by (induction ys) (simp_all add: insort_key_ties)

lemma sorted_reverse_ties:
  assumes "sorted_wrt Q xs"
  shows "sorted_wrt (\<lambda>a b. key b < key a \<or> (key a = key b \<and> Q a b)) (sorted_reverse key xs)"
proof -
  have "sorted_wrt (\<lambda>a b. Q b a) (rev xs)"
    using assms by (simp add: sorted_wrt_rev)
  then have "sorted_wrt (\<lambda>a b. key a < key b \<or> (key a = key b \<and> Q b a)) (sort_key key (rev xs))"
    by (rule sort_key_ties)
  then have "sorted_wrt (\<lambda>b a. key a < key b \<or> (key a = key b \<and> Q b a)) (sorted_reverse key xs)"
    by (simp add: sorted_reverse_def sorted_wrt_rev)
  then show ?thesis
    by (rule sorted_wrt_mono_rel [rotated]) auto
qed

lemma set_sorted_reverse: "set (sorted_reverse key xs) = set xs"
  by (simp add: sorted_reverse_def)

lemma length_sorted_reverse: "length (sorted_reverse key xs) = length xs"
  by (simp add: sorted_reverse_def)

lemma enumerate_list_sorted: "sorted_wrt (\<lambda>a b. fst a < fst b) (enumerate_list row)"
proof -
  have "sorted_wrt (<) (map fst (enumerate_list row))"
    by (simp add: enumerate_list_def)
  then show ?thesis
    by (simp add: sorted_wrt_map)
qed

lemma in_enumerate_list: "a \<in> set (enumerate_list row) \<Longrightarrow> fst a < length row \<and> snd a = row ! fst a"
  by (auto simp add: enumerate_list_def in_set_zip)

lemma titles_at_in_range:
  "\<forall>j\<in>set js. j < length labels \<Longrightarrow> titles_at labels js = Inr (map (\<lambda>j. labels ! j) js)"
  by (induction js) simp_all

lemma filter_position: "i < n \<Longrightarrow> filter (\<lambda>j. j = i) [0..<n] = [i]"
  by (induction n) (auto simp add: filter_empty_conv less_Suc_eq)

lemma positions_unique:
  assumes "distinct xs" and "i < length xs"
  shows "positions xs (xs ! i) = [i]"
proof -
  have "filter (\<lambda>j. xs ! j = xs ! i) [0..<length xs] = filter (\<lambda>j. j = i) [0..<length xs]"
    using assms by (intro filter_cong) (auto simp add: nth_eq_iff_index_eq)
  also have "\<dots> = [i]"
    using assms(2) by (rule filter_position)
  finally show ?thesis
    by (simp add: positions_def)
qed

lemma get_loc_absent: "CStr t \<notin> set labels \<Longrightarrow> get_loc labels t = Inl KeyError"
  by (simp add: get_loc_def positions_empty_iff [THEN iffD2])

lemma get_loc_unique:
  "distinct labels \<Longrightarrow> idx < length labels \<Longrightarrow> labels ! idx = CStr t \<Longrightarrow>
   get_loc labels t = Inr idx"
  using positions_unique [of labels idx] by (simp add: get_loc_def)

lemma sublist_msg_not_found: "sublist t (msg_not_found t)"
  unfolding msg_not_found_def
  by (metis sublist_appendI append.assoc)

lemma recommend_loaded:
  "pt st = PFrame p \<Longrightarrow> \<not> frame_empty p \<Longrightarrow> scores st \<noteq> PNone \<Longrightarrow>
   recommend perm st t =
     (case recommend_try st t of
        Inr recommendations \<Rightarrow> Inr recommendations
      | Inl KeyError \<Rightarrow> Inr [CStr (msg_not_found t)]
      | Inl _ \<Rightarrow> Inr [CStr msg_unexpected])"
  by (simp add: recommend_def attr_empty_def)

lemma ranking_sorted:
  "sorted_wrt (\<lambda>a b. snd b < snd a \<or> (snd a = snd b \<and> fst a < fst b))
     (sorted_reverse snd (enumerate_list row))"
  using enumerate_list_sorted by (rule sorted_reverse_ties)

lemma in_ranking:
  "a \<in> set (sorted_reverse snd (enumerate_list row)) \<Longrightarrow> fst a < length row \<and> snd a = row ! fst a"
  by (simp add: set_sorted_reverse in_enumerate_list)

lemma ranking_indices_sorted:
  "sorted_wrt (\<lambda>i j. row ! j < row ! i \<or> (row ! i = row ! j \<and> i < j))
     (map fst (sorted_reverse snd (enumerate_list row)))"
proof -
  have "sorted_wrt (\<lambda>a b. row ! fst b < row ! fst a \<or> (row ! fst a = row ! fst b \<and> fst a < fst b))
          (sorted_reverse snd (enumerate_list row))"
    using ranking_sorted [of row]
    by (rule sorted_wrt_mono_rel [rotated]) (auto dest!: in_ranking)
  then show ?thesis
    by (simp add: sorted_wrt_map)
qed

lemma sorted_wrt_irrefl_distinct:
  "sorted_wrt R xs \<Longrightarrow> (\<And>x. \<not> R x x) \<Longrightarrow> distinct xs"
  by (induction xs) auto

lemma ranking_indices_distinct: "distinct (map fst (sorted_reverse snd (enumerate_list row)))"
  using ranking_indices_sorted [of row] by (rule sorted_wrt_irrefl_distinct) simp

text \<open>
  What \<open>recommend\<close> computes on a loaded store whose matrix is an array with a row for the
  title, as long as the pivot: the titles at positions 1 to 5 of the ranking of all
  candidates by descending score, ties by ascending index.
\<close>

lemma recommend_loaded_ranking:
  assumes "pt st = PFrame p" and "\<not> frame_empty p" and "scores st = PArray m"
    and "idx < length (index_tolist p)" and "index_tolist p ! idx = CStr t"
    and "length m = length (index_tolist p)"
    and "length (m ! idx) = length (index_tolist p)"
  shows "\<exists>js. recommend perm st t = Inr (map (\<lambda>j. index_tolist p ! j) js)
          \<and> js = map fst (take 5 (drop 1 (sorted_reverse snd (enumerate_list (m ! idx)))))
          \<and> length js \<le> 5
          \<and> (\<forall>j\<in>set js. j < length (index_tolist p))
          \<and> distinct js
          \<and> sorted_wrt (\<lambda>i j. m ! idx ! j < m ! idx ! i \<or> (m ! idx ! i = m ! idx ! j \<and> i < j)) js"
proof -
  let ?labels = "index_tolist p"
  let ?ranking = "sorted_reverse snd (enumerate_list (m ! idx))"
  let ?js = "map fst (take 5 (drop 1 ?ranking))"
  have js: "?js = take 5 (drop 1 (map fst ?ranking))"
    by (simp add: take_map drop_map)
  have range: "\<forall>j\<in>set ?js. j < length ?labels"
  proof
    fix j
    assume "j \<in> set ?js"
    then obtain a where "a \<in> set ?ranking" and "j = fst a"
      by (auto dest!: in_set_takeD in_set_dropD)
    then show "j < length ?labels"
      using in_ranking [of a "m ! idx"] assms(7) by simp
  qed
  have loc: "get_loc ?labels t = Inr idx"
    using index_tolist_distinct assms(4,5) by (rule get_loc_unique)
  have "recommend_try st t = Inr (map (\<lambda>j. ?labels ! j) ?js)"
    using assms(4,6) range
    by (simp add: recommend_try_def assms(1,3) loc titles_at_in_range)
  then have "recommend perm st t = Inr (map (\<lambda>j. ?labels ! j) ?js)"
    using assms(1,2,3) by (simp add: recommend_loaded)
  moreover have "distinct ?js"
    unfolding js using ranking_indices_distinct [of "m ! idx"] by simp
  moreover have "sorted_wrt (\<lambda>i j. m ! idx ! j < m ! idx ! i \<or> (m ! idx ! i = m ! idx ! j \<and> i < j)) ?js"
    unfolding js using ranking_indices_sorted [of "m ! idx"] by simp
  moreover have "length ?js \<le> 5"
    by simp
  ultimately show ?thesis
    using range by blast
qed

text \<open>
  The query title is absent from the result when its own score is the strict maximum of its
  row: then the dropped first entry of the ranking is the query itself.
\<close>

lemma ranking_head_strict_max:
  assumes "idx < length row" and "\<forall>j<length row. j \<noteq> idx \<longrightarrow> row ! j < row ! idx"
  shows "\<exists>rest. sorted_reverse snd (enumerate_list row) = (idx, row ! idx) # rest"
proof -
  let ?ranking = "sorted_reverse snd (enumerate_list row)"
  have mem: "(idx, row ! idx) \<in> set ?ranking"
    using assms(1) by (auto simp add: set_sorted_reverse enumerate_list_def in_set_zip intro!: exI [of _ idx])
  then obtain a rest where split: "?ranking = a # rest"
    by (cases ?ranking) auto
  have a: "fst a < length row" "snd a = row ! fst a"
    using in_ranking [of a row] split by simp_all
  have "fst a = idx"
  proof (rule ccontr)
    assume differs: "fst a \<noteq> idx"
    then have "(idx, row ! idx) \<in> set rest"
      using mem split by auto
    then have "row ! idx < snd a \<or> (snd a = row ! idx \<and> fst a < idx)"
      using ranking_sorted [of row] split by auto
    moreover have "row ! fst a < row ! idx"
      using assms(2) a(1) differs by simp
    ultimately show False
      using a(2) by (metis less_asym less_irrefl)
  qed
  with a(2) have "a = (idx, row ! idx)"
    by (cases a) simp
  with split show ?thesis
    by simp
qed

lemma recommend_loaded_strict_max_excludes_query:
  assumes "pt st = PFrame p" and "\<not> frame_empty p" and "scores st = PArray m"
    and "idx < length (index_tolist p)" and "index_tolist p ! idx = CStr t"
    and "length m = length (index_tolist p)"
    and "length (m ! idx) = length (index_tolist p)"
    and "\<forall>j<length (m ! idx). j \<noteq> idx \<longrightarrow> m ! idx ! j < m ! idx ! idx"
    and "recommend perm st t = Inr res"
  shows "CStr t \<notin> set res"
proof -
  let ?labels = "index_tolist p"
  let ?ranking = "sorted_reverse snd (enumerate_list (m ! idx))"
  obtain js where res: "recommend perm st t = Inr (map (\<lambda>j. ?labels ! j) js)"
    and js: "js = map fst (take 5 (drop 1 ?ranking))"
    and range: "\<forall>j\<in>set js. j < length ?labels"
    using recommend_loaded_ranking [OF assms(1-7), of perm] by blast
  obtain rest where split: "?ranking = (idx, m ! idx ! idx) # rest"
    using ranking_head_strict_max [of idx "m ! idx"] assms(4,7,8) by auto
  have "distinct (idx # map fst rest)"
    using ranking_indices_distinct [of "m ! idx"] split by simp
  then have "idx \<notin> set (map fst rest)"
    by simp
  moreover have "set js \<subseteq> set (map fst rest)"
    unfolding js split by (auto dest!: in_set_takeD)
  ultimately have "idx \<notin> set js"
    by blast
  have differs: "?labels ! j \<noteq> CStr t" if "j \<in> set js" for j
  proof -
    have "j < length ?labels" and "j \<noteq> idx"
      using that range \<open>idx \<notin> set js\<close> by auto
    then have "?labels ! j \<noteq> ?labels ! idx"
      using index_tolist_distinct [of p] assms(4) by (simp add: nth_eq_iff_index_eq)
    then show ?thesis
      using assms(5) by simp
  qed
  have "res = map (\<lambda>j. ?labels ! j) js"
    using res assms(9) by simp
  then have "set res = (\<lambda>j. ?labels ! j) ` set js"
    by simp
  with differs show ?thesis
    by (metis imageE)
qed

lemma ex_pivot2_loaded:
  "index_tolist ex_pivot2 = [CStr ''A'', CStr ''B'']" "\<not> frame_empty ex_pivot2"
  by (simp_all add: index_tolist_def frame_empty_def row_list_ex_pivot2)
     (simp add: ex_pivot2_def colnames_DataFrame)

lemma load_ex_store2:
  "load_model_components
     (ReadOk (BSeq [PFrame DataFrame_empty, PFrame ex_pivot2, PArray [[1, 1], [1, 1]]]))
     initial_store = ex_store2"
  by (simp add: load_model_components_def derive_all_books_def ex_pivot2_loaded ex_store2_def
      initial_store_def)

subsection \<open>The claims\<close>

text \<open>
  C1: on a loaded store, \<open>recommend(t)\<close> for a title \<open>t\<close> of the pivot's index returns at most
  five titles, none of them \<open>t\<close>, all of them known titles, by descending similarity.
  The source drops the first entry of the sorted list (line 88, commented as skipping the
  book itself) whichever book it is. With two books of equal similarity the stable sort
  puts book A first in every row, so the recommendations for B are B itself. The store is
  the one the loader builds from the tuple of an empty table, this pivot and this matrix.
\<close>

theorem recommend_returns_query_title:
  "pt ex_store2 = PFrame ex_pivot2 \<and> \<not> frame_empty ex_pivot2
   \<and> scores ex_store2 = PArray [[1, 1], [1, 1]]
   \<and> index_tolist ex_pivot2 = [CStr ''A'', CStr ''B'']
   \<and> all_books ex_store2 = index_tolist ex_pivot2
   \<and> load_model_components
        (ReadOk (BSeq [PFrame DataFrame_empty, PFrame ex_pivot2, PArray [[1, 1], [1, 1]]]))
        initial_store = ex_store2
   \<and> recommend perm ex_store2 ''B'' = Inr [CStr ''B'']"
proof -
  have st: "pt ex_store2 = PFrame ex_pivot2" "scores ex_store2 = PArray [[1, 1], [1, 1]]"
    "all_books ex_store2 = [CStr ''A'', CStr ''B'']"
    by (simp_all add: ex_store2_def)
  have "recommend_try ex_store2 ''B'' = Inr [CStr ''B'']"
    by (simp add: recommend_try_def st ex_pivot2_loaded get_loc_def positions_def
        enumerate_list_def sorted_reverse_def upt_rec)
  then have "recommend perm ex_store2 ''B'' = Inr [CStr ''B'']"
    using st ex_pivot2_loaded by (simp add: recommend_loaded)
  with st ex_pivot2_loaded load_ex_store2 show ?thesis
    by simp
qed

text \<open>
  C2: with pivot rows A to G and the similarity row [1.0, 0.9, 0.2, 0.8, 0.1, 0.7, 0.05]
  for A (row 0 of the matrix), \<open>recommend("A")\<close> returns exactly B, D, F, C, E.
\<close>

theorem recommend_concrete_scenario:
  assumes "pt st = PFrame p"
    and "index_tolist p = map CStr [''A'', ''B'', ''C'', ''D'', ''E'', ''F'', ''G'']"
    and "\<not> frame_empty p"
    and "scores st = PArray m" and "m \<noteq> []"
    and "m ! 0 = [1, 9/10, 2/10, 8/10, 1/10, 7/10, 5/100]"
  shows "recommend perm st ''A'' = Inr (map CStr [''B'', ''D'', ''F'', ''C'', ''E''])"
proof -
  have loc: "get_loc (index_tolist p) ''A'' = Inr 0"
    by (simp add: assms(2) get_loc_def positions_def upt_rec)
  have "recommend_try st ''A'' = Inr (map CStr [''B'', ''D'', ''F'', ''C'', ''E''])"
    unfolding recommend_try_def assms(1) using assms(5,6)
    by (simp add: loc assms(4)) (simp add: assms(2) sorted_reverse_def enumerate_list_def upt_rec)
  then show ?thesis
    using assms(1,3,4) by (simp add: recommend_loaded)
qed

theorem recommend_concrete_scenario_witness:
  "recommend []
     \<lparr>popular_df = PFrame DataFrame_empty, pt = PFrame ex_pivot7,
      scores = PArray (replicate 7 [1, 9/10, 2/10, 8/10, 1/10, 7/10, 5/100]),
      all_books = index_tolist ex_pivot7\<rparr> ''A''
   = Inr [CStr ''B'', CStr ''D'', CStr ''F'', CStr ''C'', CStr ''E'']"
proof -
  have idx: "index_tolist ex_pivot7 = map CStr [''A'', ''B'', ''C'', ''D'', ''E'', ''F'', ''G'']"
    by (simp add: index_tolist_def row_list_ex_pivot7)
  have ne: "\<not> frame_empty ex_pivot7"
    by (simp add: frame_empty_def row_list_ex_pivot7) (simp add: ex_pivot7_def colnames_DataFrame)
  from recommend_concrete_scenario [of
      "\<lparr>popular_df = PFrame DataFrame_empty, pt = PFrame ex_pivot7,
        scores = PArray (replicate 7 [1, 9/10, 2/10, 8/10, 1/10, 7/10, 5/100]),
        all_books = index_tolist ex_pivot7\<rparr>"
      ex_pivot7 "replicate 7 [1, 9/10, 2/10, 8/10, 1/10, 7/10, 5/100]" "[]"] idx ne
  show ?thesis
    by (simp add: eval_nat_numeral)
qed

text \<open>
  C4: on a loaded store, \<open>recommend(t)\<close> for a title \<open>t\<close> that is not in the pivot's index
  returns a list of one string, which contains \<open>t\<close>; no exception leaves the function.
\<close>

theorem recommend_unknown_title:
  assumes "pt st = PFrame p" and "\<not> frame_empty p" and "scores st \<noteq> PNone"
    and "CStr t \<notin> set (index_tolist p)"
  shows "recommend perm st t = Inr [CStr (msg_not_found t)] \<and> sublist t (msg_not_found t)"
  using assms
  by (simp add: recommend_loaded recommend_try_def get_loc_absent sublist_msg_not_found)

theorem recommend_unknown_title_witness:
  "pt ex_store2 = PFrame ex_pivot2 \<and> \<not> frame_empty ex_pivot2 \<and> scores ex_store2 \<noteq> PNone
   \<and> CStr ''Z'' \<notin> set (index_tolist ex_pivot2)
   \<and> recommend [] ex_store2 ''Z''
       = Inr [CStr (''Error: '' @ [CHR 0x27] @ ''Z'' @ [CHR 0x27]
                     @ '' not found in the trained model'' @ [CHR 0x27] @ ''s index.'')]
   \<and> sublist ''Z'' (msg_not_found ''Z'')"
proof -
  have a: "pt ex_store2 = PFrame ex_pivot2" and c: "scores ex_store2 \<noteq> PNone"
    by (simp_all add: ex_store2_def)
  have d: "CStr ''Z'' \<notin> set (index_tolist ex_pivot2)"
    by (simp add: ex_pivot2_loaded)
  from recommend_unknown_title [OF a ex_pivot2_loaded(2) c d, of "[]"] a c d ex_pivot2_loaded(2)
  show ?thesis
    by (simp add: msg_not_found_def)
qed

text \<open>
  C5: on a loaded store no exception leaves \<open>recommend\<close>. Whatever the body of the \<open>try\<close>
  raises other than KeyError becomes a list of one explanatory message; so does in particular
  the out-of-range access \<open>scores[index]\<close> of a matrix with fewer rows than the pivot.
\<close>

theorem recommend_catches_unexpected:
  assumes "pt st = PFrame p" and "\<not> frame_empty p" and "scores st \<noteq> PNone"
  shows "(\<exists>res. recommend perm st t = Inr res)
       \<and> (\<forall>e. recommend_try st t = Inl e \<and> e \<noteq> KeyError \<longrightarrow>
              recommend perm st t = Inr [CStr ''An unexpected error occurred during recommendation.''])
       \<and> (\<forall>i m. scores st = PArray m \<and> get_loc (index_tolist p) t = Inr i \<and> length m \<le> i \<longrightarrow>
              recommend perm st t = Inr [CStr ''An unexpected error occurred during recommendation.''])"
proof -
  have "recommend_try st t = Inl IndexError"
    if "scores st = PArray m" and "get_loc (index_tolist p) t = Inr i" and "length m \<le> i" for i m
    using that by (simp add: recommend_try_def assms(1))
  then show ?thesis
    unfolding recommend_loaded [OF assms]
    by (auto simp add: msg_unexpected_def split: sum.splits exn.splits)
qed

theorem recommend_catches_unexpected_witness:
  "pt (ex_store2\<lparr>scores := PArray [[1, 1]]\<rparr>) = PFrame ex_pivot2
   \<and> \<not> frame_empty ex_pivot2
   \<and> scores (ex_store2\<lparr>scores := PArray [[1, 1]]\<rparr>) = PArray [[1, 1]]
   \<and> get_loc (index_tolist ex_pivot2) ''B'' = Inr 1
   \<and> length [[1, 1 :: real]] \<le> 1
   \<and> recommend_try (ex_store2\<lparr>scores := PArray [[1, 1]]\<rparr>) ''B'' = Inl IndexError
   \<and> recommend [] (ex_store2\<lparr>scores := PArray [[1, 1]]\<rparr>) ''B''
       = Inr [CStr ''An unexpected error occurred during recommendation.'']"
proof -
  let ?st = "ex_store2\<lparr>scores := PArray [[1, 1]]\<rparr>"
  have a: "pt ?st = PFrame ex_pivot2"
    by (simp add: ex_store2_def)
  have b: "scores ?st = PArray [[1, 1]]"
    by simp
  have b': "scores ?st \<noteq> PNone"
    by simp
  have c: "get_loc (index_tolist ex_pivot2) ''B'' = Inr 1"
    by (simp add: ex_pivot2_loaded get_loc_def positions_def upt_rec)
  have d: "recommend_try ?st ''B'' = Inl IndexError"
    by (simp add: recommend_try_def a c)
  from recommend_catches_unexpected [OF a ex_pivot2_loaded(2) b', of "[]" "''B''"]
  have "recommend [] ?st ''B'' = Inr [CStr ''An unexpected error occurred during recommendation.'']"
    using d by simp
  with a b c d ex_pivot2_loaded(2) show ?thesis
    by simp
qed

section \<open>Properties of recommend on a degraded store\<close>




lemma recommend_degraded:
  "pt st = PFrame p \<Longrightarrow> frame_empty p \<or> scores st = PNone \<Longrightarrow>
   recommend perm st t = recommend_popular perm st"
  by (auto simp add: recommend_def attr_empty_def)




text \<open>
  C9: on a degraded store (pivot empty or no similarity matrix) whose popularity table is
  empty, \<open>recommend\<close> returns exactly one explanatory string for any title and raises nothing.
\<close>

theorem recommend_degraded_no_popular:
  assumes "pt st = PFrame p" and "frame_empty p \<or> scores st = PNone"
    and "popular_df st = PFrame f" and "frame_empty f"
  shows "recommend perm st t = Inr [CStr ''Model data unavailable. Please check backend setup.'']"
  using assms(3,4)
  by (simp add: recommend_degraded [OF assms(1,2)] recommend_popular_def msg_unavailable_def)

theorem recommend_degraded_no_popular_witness:
  "pt initial_store = PFrame DataFrame_empty
   \<and> (frame_empty DataFrame_empty \<or> scores initial_store = PNone)
   \<and> popular_df initial_store = PFrame DataFrame_empty
   \<and> frame_empty DataFrame_empty
   \<and> recommend [] initial_store ''A''
       = Inr [CStr ''Model data unavailable. Please check backend setup.'']"
proof -
  have a: "pt initial_store = PFrame DataFrame_empty"
    and c: "popular_df initial_store = PFrame DataFrame_empty"
    by (simp_all add: initial_store_def)
  have b: "frame_empty DataFrame_empty \<or> scores initial_store = PNone"
    by (simp add: DataFrame_empty_empty)
  from recommend_degraded_no_popular [OF a b c DataFrame_empty_empty, of "[]" "''A''"]
    a b c DataFrame_empty_empty
  show ?thesis
    by blast
qed

end
